theory Spec2Isabelle
  imports Main
begin

section \<open>Data model of the orders service\<close>

text \<open>
  Identifiers are strings, as in the signatures \<^verbatim>\<open>findOne(id: string)\<close>,
  \<^verbatim>\<open>update(id: string, ...)\<close> and \<^verbatim>\<open>remove(id: string)\<close>. Not every string is the text of
  an object id: the store decides which it can cast (\<open>castObjectId\<close> below).
\<close>

type_synonym object_id = string

text \<open>
  JavaScript numbers are IEEE 754 doubles. The numbers of this service are integers, so
  a number is modelled by the integer it stands for, and the result of an addition by
  the double nearest to the exact sum: that integer, or an infinity beyond the largest
  double.
\<close>

datatype js_number = Finite int | Infinity | NegInfinity

text \<open>The number of binary digits of a natural number.\<close>

fun bit_length :: "nat \<Rightarrow> nat" where
  "bit_length n = (if n = 0 then 0 else Suc (bit_length (n div 2)))"

declare bit_length.simps [simp del]

text \<open>
  Rounding a natural number to 53 significant binary digits, to nearest, ties to the
  even significand: the magnitude of the nearest double, as long as that is finite.
\<close>

definition round_double :: "nat \<Rightarrow> nat" where
  "round_double m =
     (let e = bit_length m - 53; q = m div 2 ^ e; r = m mod 2 ^ e
      in (if 2 ^ e < 2 * r \<or> (2 * r = 2 ^ e \<and> odd q) then q + 1 else q) * 2 ^ e)"

definition to_double :: "int \<Rightarrow> js_number" where
  "to_double n =
     (let m = round_double (nat \<bar>n\<bar>)
      in if 2 ^ 1024 \<le> m then (if n < 0 then NegInfinity else Infinity)
         else Finite (if n < 0 then - int m else int m))"

text \<open>The operator \<^verbatim>\<open>+\<close> of line 38, on two numbers that are integers.\<close>

definition js_add :: "int \<Rightarrow> int \<Rightarrow> js_number" where
  "js_add a b = to_double (a + b)"

text \<open>
  A wish, as \<^verbatim>\<open>create\<close> reads it after \<^verbatim>\<open>populate('wishes')\<close>: its \<^verbatim>\<open>_id\<close>, \<^verbatim>\<open>material\<close>,
  \<^verbatim>\<open>sizePrice\<close>, \<^verbatim>\<open>photoPrice\<close> and \<^verbatim>\<open>amount\<close>. The wish schema is not among the sources; the
  prices and the amount are integer amounts of minor currency units.
\<close>

record wish =
  wish_id :: object_id
  material :: string
  sizePrice :: int
  photoPrice :: int
  amount :: int

text \<open>The argument of \<^verbatim>\<open>create\<close>; only \<^verbatim>\<open>user._id\<close> is read from it.\<close>

record user =
  user_id :: object_id
  wish_refs :: "object_id list"

text \<open>The \<^verbatim>\<open>Item\<close> literal built for each wish (lines 31 to 41).\<close>

record product_data =
  name :: string
  description :: string

record price_data =
  product_data :: product_data
  currency :: string
  unit_amount :: js_number

record item =
  price_data :: price_data
  quantity :: int

text \<open>The argument of \<^verbatim>\<open>stripe.checkout.sessions.create\<close> (lines 44 to 49).\<close>

record checkout_params =
  line_items :: "item list"
  mode :: string
  success_url :: string
  cancel_url :: string

text \<open>The two fields of the gateway's session that \<^verbatim>\<open>create\<close> reads.\<close>

record session =
  amount_total :: int
  url :: string

text \<open>
  A session as the gateway holds it: what it answered, under the session's own
  identity, here its number in the order of creation.
\<close>

record created_session =
  session_id :: nat
  session_data :: session

text \<open>
  The object literal \<^verbatim>\<open>order\<close> (lines 51 to 58), and the stored document, which is that
  literal with the \<^verbatim>\<open>_id\<close> the store gives it. \<^verbatim>\<open>createdAt\<close> is a time stamp read from the
  clock; \<^verbatim>\<open>status\<close> is the string the source writes.
\<close>

record new_order =
  createdAt :: nat
  paid :: int
  status :: string
  paymentLink :: string
  user :: object_id
  wishes :: "object_id list"

record order = new_order +
  order_id :: object_id

text \<open>
  The value of \<^verbatim>\<open>error.code\<close> of a caught error (\<^verbatim>\<open>error: any\<close>): a number (the database
  driver's codes), a string (the gateway's codes) or absent. The strict comparison
  \<^verbatim>\<open>error.code === 11000\<close> holds for the number 11000 only.
\<close>

datatype js_code = NumCode int | StrCode string | NoCode

text \<open>
  A raw error of the gateway or of the store: its \<^verbatim>\<open>code\<close>, its \<^verbatim>\<open>keyValue\<close> (the
  conflicting fields of a duplicate-key error, field name and value) and the rest of
  its internal detail.
\<close>

record raw_error =
  code :: js_code
  keyValue :: "(string \<times> string) list"
  detail :: string

text \<open>
  What a call of the service can throw to its caller: the three HTTP exceptions with
  their messages, the \<^verbatim>\<open>TypeError\<close> of destructuring \<^verbatim>\<open>null\<close>, a raw error that is the
  rejection of a promise the service returned without awaiting it, and the store's
  error on an id it cannot cast, which \<^verbatim>\<open>update\<close> and \<^verbatim>\<open>remove\<close> do not catch.
\<close>

datatype exn =
  NotFoundException string
  | BadRequestException string
  | InternalServerErrorException string
  | TypeError
  | Rejected raw_error
  | CastError object_id

section \<open>The collaborators\<close>

text \<open>
  The state the service acts on: the stored orders in insertion order, every call made
  to the gateway, every session the gateway created, and every error written by
  \<^verbatim>\<open>logger.error\<close>.
\<close>

record world =
  orders :: "order list"
  stripe_calls :: "checkout_params list"
  stripe_sessions :: "created_session list"
  logged :: "raw_error list"

text \<open>
  What the service does not decide, as parameters:
  \<^item> \<open>userModel_findById\<close>: the result of
    \<^verbatim>\<open>userModel.findById(id, 'wishes').populate('wishes').exec()\<close>, \<open>None\<close> for \<^verbatim>\<open>null\<close>, else the
    populated \<^verbatim>\<open>wishes\<close> of the document;
  \<^item> \<open>stripe_create\<close>: the gateway's answer to a call, given the calls made before: it
    throws a raw error or returns a session;
  \<^item> \<open>orderModel_fault\<close>: whether the store rejects an insert, given the stored orders;
  \<^item> \<open>new_ObjectId\<close>: the \<^verbatim>\<open>_id\<close> the store's driver generates for a new document;
  \<^item> \<open>castObjectId\<close>: whether the store can cast a string to an object id (which strings
    it accepts depends on the driver);
  \<^item> \<open>JSON_stringify\<close>: the built-in \<^verbatim>\<open>JSON.stringify\<close> on a \<^verbatim>\<open>keyValue\<close>.
\<close>

record env =
  userModel_findById :: "object_id \<Rightarrow> wish list option"
  stripe_create :: "checkout_params list \<Rightarrow> checkout_params \<Rightarrow> raw_error + session"
  orderModel_fault :: "order list \<Rightarrow> new_order \<Rightarrow> raw_error option"
  new_ObjectId :: "order list \<Rightarrow> object_id"
  castObjectId :: "object_id \<Rightarrow> bool"
  JSON_stringify :: "(string \<times> string) list \<Rightarrow> string"

section \<open>OrdersService\<close>

text \<open>\<^verbatim>\<open>handelDBException\<close> (lines 95 to 101): it never returns, so its value is the exception.\<close>

definition handelDBException :: "env \<Rightarrow> raw_error \<Rightarrow> world \<Rightarrow> exn \<times> world" where
  "handelDBException env error w =
     (if code error = NumCode 11000
      then (BadRequestException (''Order already exists, '' @ JSON_stringify env (keyValue error)), w)
      else (InternalServerErrorException ''Unexpected error, check server logs'',
            w\<lparr>logged := logged w @ [error]\<rparr>))"

text \<open>The callback of \<^verbatim>\<open>wishes.map\<close> at lines 31 to 41, and the list it builds.\<close>

definition item_of_wish :: "wish \<Rightarrow> item" where
  "item_of_wish wish =
     \<lparr>price_data =
        \<lparr>product_data = \<lparr>name = material wish, description = ''Print on '' @ material wish\<rparr>,
         currency = ''usd'',
         unit_amount = js_add (sizePrice wish) (photoPrice wish)\<rparr>,
      quantity = amount wish\<rparr>"

definition items :: "wish list \<Rightarrow> item list" where
  "items ws = map item_of_wish ws"

definition session_params :: "wish list \<Rightarrow> checkout_params" where
  "session_params ws =
     \<lparr>line_items = items ws,
      mode = ''payment'',
      success_url = ''https://paloverdeprint.netlify.app'',
      cancel_url = ''https://paloverdeprint.netlify.app''\<rparr>"

text \<open>
  The error of the store's unique index on \<^verbatim>\<open>_id\<close>, which every collection has: an
  insert under an \<^verbatim>\<open>_id\<close> that a stored document has is rejected with it.
\<close>

definition duplicate_id :: "object_id \<Rightarrow> raw_error" where
  "duplicate_id i =
     \<lparr>code = NumCode 11000, keyValue = [(''_id'', i)],
      detail = ''E11000 duplicate key error, index: _id_''\<rparr>"

text \<open>
  \<^verbatim>\<open>orderModel.create(order)\<close>: the promise it returns is rejected with the store's raw
  error, or fulfilled with the stored document.
\<close>

definition orderModel_create :: "env \<Rightarrow> new_order \<Rightarrow> world \<Rightarrow> (raw_error + order) \<times> world" where
  "orderModel_create env ord w =
     (case orderModel_fault env (orders w) ord of
        Some e \<Rightarrow> (Inl e, w)
      | None \<Rightarrow>
          (let i = new_ObjectId env (orders w);
               doc = new_order.extend ord (order.fields i)
           in if i \<in> set (map order_id (orders w)) then (Inl (duplicate_id i), w)
              else (Inr doc, w\<lparr>orders := orders w @ [doc]\<rparr>)))"

text \<open>
  \<^verbatim>\<open>create\<close> (lines 25 to 64).
  \<^item> Line 26 destructures the result of the lookup outside the \<^verbatim>\<open>try\<close>: on \<^verbatim>\<open>null\<close> it
    throws a \<^verbatim>\<open>TypeError\<close>.
  \<^item> The gateway call at line 44 is awaited inside the \<^verbatim>\<open>try\<close>, so what it throws reaches
    the \<^verbatim>\<open>catch\<close> and \<^verbatim>\<open>handelDBException\<close>. The call passes no idempotency key, so the
    gateway creates a new session each time it answers with one.
  \<^item> Line 59 is \<^verbatim>\<open>return this.orderModel.create(order)\<close> with no \<^verbatim>\<open>await\<close>: the \<^verbatim>\<open>try\<close> block
    is left with the pending promise, and a rejection of that promise rejects the
    promise of \<^verbatim>\<open>create\<close> itself, past the \<^verbatim>\<open>catch\<close>.
\<close>

definition create :: "env \<Rightarrow> nat \<Rightarrow> user \<Rightarrow> world \<Rightarrow> (exn + order) \<times> world" where
  "create env now usr w =
     (case userModel_findById env (user_id usr) of
        None \<Rightarrow> (Inl TypeError, w)
      | Some ws \<Rightarrow>
          if length ws = 0 then (Inl (NotFoundException ''No wishes found''), w)
          else
            (let w1 = w\<lparr>stripe_calls := stripe_calls w @ [session_params ws]\<rparr>
             in case stripe_create env (stripe_calls w) (session_params ws) of
                  Inl error \<Rightarrow> (case handelDBException env error w1 of (x, w2) \<Rightarrow> (Inl x, w2))
                | Inr session \<Rightarrow>
                    (let w2 = w1\<lparr>stripe_sessions := stripe_sessions w1 @
                                  [\<lparr>session_id = length (stripe_sessions w1),
                                    session_data = session\<rparr>]\<rparr>;
                         ord = \<lparr>createdAt = now,
                                paid = amount_total session,
                                status = ''Pending'',
                                paymentLink = url session,
                                user = user_id usr,
                                wishes = map wish_id ws\<rparr>
                     in case orderModel_create env ord w2 of
                          (Inl e, w3) \<Rightarrow> (Inl (Rejected e), w3)
                        | (Inr doc, w3) \<Rightarrow> (Inr doc, w3))))"

text \<open>
  The patch of \<^verbatim>\<open>update\<close>. The class \<^verbatim>\<open>UpdateOrderDto\<close> is not among the sources and the
  service reads no field of it: the object goes to the store as it is. It is modelled
  as a partial update of an order's fields, each present or absent.
\<close>

record patch =
  p_createdAt :: "nat option"
  p_paid :: "int option"
  p_status :: "string option"
  p_paymentLink :: "string option"
  p_user :: "object_id option"
  p_wishes :: "object_id list option"









section \<open>A concrete scenario\<close>

text \<open>
  A user with a single wish (a canvas print, 1000 + 500 a piece, two pieces), a user
  with no wish, a user with two wishes, a user whose wish has a price of \<open>2 ^ 53\<close>, and
  no other user. The gateway prices the line items and answers with a session; the
  store accepts every insert, numbers its documents with 24 hexadecimal digits, and
  casts exactly the strings of 24 hexadecimal digits.
\<close>

definition canvas :: wish where
  "canvas = \<lparr>wish_id = ''w1'', material = ''Canvas'', sizePrice = 1000, photoPrice = 500, amount = 2\<rparr>"

definition poster :: wish where
  "poster = \<lparr>wish_id = ''w2'', material = ''Paper'', sizePrice = 300, photoPrice = 200, amount = 1\<rparr>"

definition mural :: wish where
  "mural = \<lparr>wish_id = ''w3'', material = ''Wall'', sizePrice = 9007199254740992, photoPrice = 1,
            amount = 1\<rparr>"

definition alice :: user where
  "alice = \<lparr>user_id = ''u1'', wish_refs = [''w1'']\<rparr>"

definition bob :: user where
  "bob = \<lparr>user_id = ''u2'', wish_refs = []\<rparr>"

definition carol :: user where
  "carol = \<lparr>user_id = ''u3'', wish_refs = []\<rparr>"

definition dave :: user where
  "dave = \<lparr>user_id = ''u4'', wish_refs = [''w1'', ''w2'']\<rparr>"

definition erin :: user where
  "erin = \<lparr>user_id = ''u5'', wish_refs = [''w3'']\<rparr>"

definition shop_users :: "object_id \<Rightarrow> wish list option" where
  "shop_users i =
     (if i = ''u1'' then Some [canvas]
      else if i = ''u2'' then Some []
      else if i = ''u4'' then Some [canvas, poster]
      else if i = ''u5'' then Some [mural]
      else None)"

definition line_total :: "item \<Rightarrow> int" where
  "line_total it = (case unit_amount (price_data it) of Finite n \<Rightarrow> n * quantity it | _ \<Rightarrow> 0)"

definition shop_gateway :: "checkout_params list \<Rightarrow> checkout_params \<Rightarrow> raw_error + session" where
  "shop_gateway calls ps =
     Inr \<lparr>amount_total = sum_list (map line_total (line_items ps)),
          url = ''https://pay/session/'' @ replicate (Suc (length calls)) CHR ''a''\<rparr>"

definition shop_stringify :: "(string \<times> string) list \<Rightarrow> string" where
  "shop_stringify kv = concat (map (\<lambda>(k, v). k @ '':'' @ v @ '';'') kv)"

definition shop_new_id :: "order list \<Rightarrow> object_id" where
  "shop_new_id os = ''65000000000000000000000'' @ [''0123456789abcdef'' ! (Suc (length os) mod 16)]"

definition hex24 :: "object_id \<Rightarrow> bool" where
  "hex24 i = (length i = 24 \<and> list_all (\<lambda>c. c \<in> set ''0123456789abcdefABCDEF'') i)"

definition shop :: env where
  "shop = \<lparr>userModel_findById = shop_users,
           stripe_create = shop_gateway,
           orderModel_fault = (\<lambda>os ord. None),
           new_ObjectId = shop_new_id,
           castObjectId = hex24,
           JSON_stringify = shop_stringify\<rparr>"

text \<open>The same shop with a store that rejects every insert as a duplicate key.\<close>

definition duplicate_key :: raw_error where
  "duplicate_key = \<lparr>code = NumCode 11000, keyValue = [(''paymentLink'', ''https://pay/session/a'')],
                    detail = ''E11000 duplicate key error collection: orders''\<rparr>"

definition shop_rejecting :: env where
  "shop_rejecting = shop\<lparr>orderModel_fault := (\<lambda>os ord. Some duplicate_key)\<rparr>"

definition start :: world where
  "start = \<lparr>orders = [], stripe_calls = [], stripe_sessions = [], logged = []\<rparr>"

text \<open>
  The states this scenario reaches: after the order of the user with one wish, then
  after a first and a second order of the user with two wishes.
\<close>

definition session1 :: session where
  "session1 = \<lparr>amount_total = 3000, url = ''https://pay/session/a''\<rparr>"

definition session2 :: session where
  "session2 = \<lparr>amount_total = 3500, url = ''https://pay/session/aa''\<rparr>"

definition session3 :: session where
  "session3 = \<lparr>amount_total = 3500, url = ''https://pay/session/aaa''\<rparr>"

definition created1 :: created_session where
  "created1 = \<lparr>session_id = 0, session_data = session1\<rparr>"

definition created2 :: created_session where
  "created2 = \<lparr>session_id = 1, session_data = session2\<rparr>"

definition created3 :: created_session where
  "created3 = \<lparr>session_id = 2, session_data = session3\<rparr>"

definition order1 :: order where
  "order1 = \<lparr>createdAt = 7, paid = 3000, status = ''Pending'',
             paymentLink = ''https://pay/session/a'', user = ''u1'', wishes = [''w1''],
             order_id = ''650000000000000000000001''\<rparr>"

definition order2 :: order where
  "order2 = \<lparr>createdAt = 8, paid = 3500, status = ''Pending'',
             paymentLink = ''https://pay/session/aa'', user = ''u4'', wishes = [''w1'', ''w2''],
             order_id = ''650000000000000000000002''\<rparr>"

definition order3 :: order where
  "order3 = \<lparr>createdAt = 9, paid = 3500, status = ''Pending'',
             paymentLink = ''https://pay/session/aaa'', user = ''u4'', wishes = [''w1'', ''w2''],
             order_id = ''650000000000000000000003''\<rparr>"

definition placed :: world where
  "placed = \<lparr>orders = [order1],
             stripe_calls = [session_params [canvas]],
             stripe_sessions = [created1],
             logged = []\<rparr>"

definition placed_twice :: world where
  "placed_twice = \<lparr>orders = [order1, order2],
                   stripe_calls = [session_params [canvas], session_params [canvas, poster]],
                   stripe_sessions = [created1, created2],
                   logged = []\<rparr>"

definition placed_thrice :: world where
  "placed_thrice = \<lparr>orders = [order1, order2, order3],
                    stripe_calls = [session_params [canvas], session_params [canvas, poster],
                                    session_params [canvas, poster]],
                    stripe_sessions = [created1, created2, created3],
                    logged = []\<rparr>"

text \<open>
  A patch that sets the status back and the amount to nothing, and leaves the other
  fields alone; an id that the store can cast and that no order of the scenario has.
\<close>

definition refund :: patch where
  "refund = \<lparr>p_createdAt = None, p_paid = Some 0, p_status = Some ''Refunded'',
             p_paymentLink = None, p_user = None, p_wishes = None\<rparr>"

definition unknown_id :: object_id where
  "unknown_id = ''6500000000000000000000ff''"

section \<open>Evaluating the scenario\<close>

lemmas scenario_defs =
  shop_def shop_users_def shop_gateway_def shop_stringify_def shop_rejecting_def duplicate_key_def
  shop_new_id_def hex24_def line_total_def
  alice_def bob_def carol_def dave_def erin_def canvas_def poster_def mural_def start_def
  order1_def order2_def order3_def session1_def session2_def session3_def
  created1_def created2_def created3_def placed_def placed_twice_def placed_thrice_def
  refund_def unknown_id_def

lemmas create_defs =
  create_def handelDBException_def orderModel_create_def session_params_def items_def
  item_of_wish_def Let_def new_order.extend_def order.fields_def

text \<open>Addition is exact up to \<open>2 ^ 53\<close>.\<close>

lemma bit_length_le: "m < 2 ^ k \<Longrightarrow> bit_length m \<le> k"
proof (induction k arbitrary: m)
  case 0
  then show ?case by (simp add: bit_length.simps)
next
  case (Suc k)
  show ?case
  proof (cases "m = 0")
    case True
    then show ?thesis by (simp add: bit_length.simps)
  next
    case False
    from Suc.prems have "m div 2 < 2 ^ k" by simp
    from Suc.IH [OF this] False show ?thesis
      by (subst bit_length.simps) simp
  qed
qed

lemma bit_length_power: "bit_length (2 ^ k) = Suc k"
proof (induction k)
  case 0
  then show ?case by (simp add: bit_length.simps)
next
  case (Suc k)
  then show ?case by (subst bit_length.simps) simp
qed

lemma round_double_exact:
  assumes "m \<le> 2 ^ 53"
  shows "round_double m = m"
proof (cases "m = 2 ^ 53")
  case True
  have "bit_length m - 53 = 1" unfolding True bit_length_power by simp
  then show ?thesis by (simp add: round_double_def Let_def True)
next
  case False
  with assms have "m < 2 ^ 53" by simp
  from bit_length_le [OF this] have "bit_length m - 53 = 0" by simp
  then show ?thesis by (simp add: round_double_def Let_def)
qed

lemma js_add_exact:
  assumes "\<bar>a + b\<bar> \<le> 2 ^ 53"
  shows "js_add a b = Finite (a + b)"
proof -
  from assms have le: "nat \<bar>a + b\<bar> \<le> 2 ^ 53" by (simp add: nat_le_iff)
  have "(2::nat) ^ 53 < 2 ^ 1024" by (rule power_strict_increasing) simp_all
  with le have small: "\<not> 2 ^ 1024 \<le> nat \<bar>a + b\<bar>" by linarith
  show ?thesis
    using small by (simp add: js_add_def to_double_def Let_def round_double_exact [OF le])
qed

lemma canvas_amount: "js_add 1000 500 = Finite 1500"
  using js_add_exact [of 1000 500] by simp

lemma poster_amount: "js_add 300 200 = Finite 500"
  using js_add_exact [of 300 200] by simp

lemma bit_length_between: "2 ^ k \<le> m \<Longrightarrow> m < 2 ^ Suc k \<Longrightarrow> bit_length m = Suc k"
proof (induction k arbitrary: m)
  case 0
  then have "m = 1" by simp
  then show ?case by (simp add: bit_length.simps)
next
  case (Suc k)
  from Suc.prems have "2 ^ k \<le> m div 2" "m div 2 < 2 ^ Suc k" "m \<noteq> 0" by auto
  with Suc.IH [of "m div 2"] show ?case
    by (subst bit_length.simps) simp
qed

lemma round_double_mural: "round_double 9007199254740993 = 9007199254740992"
proof -
  have "bit_length 9007199254740993 = Suc 53"
    by (rule bit_length_between) simp_all
  then have "bit_length 9007199254740993 - 53 = 1" by simp
  then show ?thesis by (simp add: round_double_def Let_def)
qed

lemma mural_amount: "js_add 9007199254740992 1 = Finite 9007199254740992"
proof -
  have "(2::nat) ^ 53 < 2 ^ 1024" by (rule power_strict_increasing) simp_all
  then have small: "\<not> (2::nat) ^ 1024 \<le> 9007199254740992" by simp
  show ?thesis
    using small by (simp add: js_add_def to_double_def Let_def round_double_mural)
qed


lemma alice_wishes: "userModel_findById shop (user_id alice) = Some [canvas]"
  by (simp add: shop_def shop_users_def alice_def)

lemma dave_wishes: "userModel_findById shop (user_id dave) = Some [canvas, poster]"
  by (simp add: shop_def shop_users_def dave_def)

lemma erin_wishes: "userModel_findById shop (user_id erin) = Some [mural]"
  by (simp add: shop_def shop_users_def erin_def)

lemma alice_first: "create shop 7 alice start = (Inr order1, placed)"
  by (simp add: scenario_defs create_defs canvas_amount)

lemma dave_first: "create shop 8 dave placed = (Inr order2, placed_twice)"
  by (simp add: scenario_defs create_defs canvas_amount poster_amount)


section \<open>How create ends\<close>

text \<open>
  A call of \<open>create\<close> that returns an order found a non-empty wish list, got a session
  from the gateway and had its insert accepted under an id that was not in use; the
  order and the new state are then determined.
\<close>

lemma create_Inr:
  assumes "create env now usr w = (Inr ord, w')"
  shows "\<exists>ws session.
           userModel_findById env (user_id usr) = Some ws \<and> ws \<noteq> [] \<and>
           stripe_create env (stripe_calls w) (session_params ws) = Inr session \<and>
           new_ObjectId env (orders w) \<notin> set (map order_id (orders w)) \<and>
           ord = \<lparr>createdAt = now, paid = amount_total session, status = ''Pending'',
                  paymentLink = url session, user = user_id usr, wishes = map wish_id ws,
                  order_id = new_ObjectId env (orders w)\<rparr> \<and>
           w' = w\<lparr>orders := orders w @ [ord],
                  stripe_calls := stripe_calls w @ [session_params ws],
                  stripe_sessions := stripe_sessions w @
                    [\<lparr>session_id = length (stripe_sessions w), session_data = session\<rparr>]\<rparr>"
  using assms
  by (auto simp: create_def handelDBException_def orderModel_create_def Let_def
        new_order.extend_def order.fields_def
        split: sum.splits option.splits prod.splits if_splits)

text \<open>Conversely, these conditions make \<open>create\<close> return that order.\<close>

lemma create_succeeds:
  assumes "userModel_findById env (user_id usr) = Some ws" and "ws \<noteq> []"
    and "stripe_create env (stripe_calls w) (session_params ws) = Inr session"
    and "orderModel_fault env (orders w)
           \<lparr>createdAt = now, paid = amount_total session, status = ''Pending'',
            paymentLink = url session, user = user_id usr, wishes = map wish_id ws\<rparr> = None"
    and "new_ObjectId env (orders w) \<notin> set (map order_id (orders w))"
  shows "create env now usr w =
           (Inr \<lparr>createdAt = now, paid = amount_total session, status = ''Pending'',
                 paymentLink = url session, user = user_id usr, wishes = map wish_id ws,
                 order_id = new_ObjectId env (orders w)\<rparr>,
            w\<lparr>orders := orders w @
                 [\<lparr>createdAt = now, paid = amount_total session, status = ''Pending'',
                   paymentLink = url session, user = user_id usr, wishes = map wish_id ws,
                   order_id = new_ObjectId env (orders w)\<rparr>],
              stripe_calls := stripe_calls w @ [session_params ws],
              stripe_sessions := stripe_sessions w @
                [\<lparr>session_id = length (stripe_sessions w), session_data = session\<rparr>]\<rparr>)"
  using assms
  by (simp add: create_def orderModel_create_def Let_def new_order.extend_def order.fields_def)

text \<open>Whatever the gateway answers, a non-empty wish list leads to exactly one call of it.\<close>

lemma create_calls_gateway:
  assumes "userModel_findById env (user_id usr) = Some ws" and "ws \<noteq> []"
  shows "stripe_calls (snd (create env now usr w)) = stripe_calls w @ [session_params ws]"
  using assms
  by (simp add: create_def handelDBException_def orderModel_create_def Let_def
      split: sum.splits option.splits prod.splits)

text \<open>What the gateway throws goes through \<open>handelDBException\<close>.\<close>

lemma create_gateway_error:
  assumes "userModel_findById env (user_id usr) = Some ws" and "ws \<noteq> []"
    and "stripe_create env (stripe_calls w) (session_params ws) = Inl e"
  shows "create env now usr w =
           (if code e = NumCode 11000
            then (Inl (BadRequestException (''Order already exists, '' @ JSON_stringify env (keyValue e))),
                  w\<lparr>stripe_calls := stripe_calls w @ [session_params ws]\<rparr>)
            else (Inl (InternalServerErrorException ''Unexpected error, check server logs''),
                  w\<lparr>stripe_calls := stripe_calls w @ [session_params ws],
                    logged := logged w @ [e]\<rparr>))"
  using assms by (simp add: create_def handelDBException_def Let_def)

text \<open>
  What the store rejects the insert with does not: it leaves \<open>create\<close> as it is, and
  nothing is logged.
\<close>

lemma create_store_rejection:
  assumes "userModel_findById env (user_id usr) = Some ws" and "ws \<noteq> []"
    and "stripe_create env (stripe_calls w) (session_params ws) = Inr session"
    and "orderModel_fault env (orders w)
           \<lparr>createdAt = now, paid = amount_total session, status = ''Pending'',
            paymentLink = url session, user = user_id usr, wishes = map wish_id ws\<rparr> = Some e"
  shows "create env now usr w =
           (Inl (Rejected e),
            w\<lparr>stripe_calls := stripe_calls w @ [session_params ws],
              stripe_sessions := stripe_sessions w @
                [\<lparr>session_id = length (stripe_sessions w), session_data = session\<rparr>]\<rparr>)"
  using assms by (simp add: create_def orderModel_create_def Let_def)

text \<open>The translation itself, on any raw error.\<close>

lemma handelDBException_duplicate:
  "code e = NumCode 11000 \<Longrightarrow>
   handelDBException env e w =
     (BadRequestException (''Order already exists, '' @ JSON_stringify env (keyValue e)), w)"
  by (simp add: handelDBException_def)

lemma handelDBException_other:
  "code e \<noteq> NumCode 11000 \<Longrightarrow>
   handelDBException env e w =
     (InternalServerErrorException ''Unexpected error, check server logs'',
      w\<lparr>logged := logged w @ [e]\<rparr>)"
  by (simp add: handelDBException_def)

section \<open>The store's lookups\<close>






section \<open>Properties of order creation\<close>

text \<open>
  C1. When the user's populated wish list is empty, \<open>create\<close> fails with
  \<open>NotFoundException\<close> and the message \<open>No wishes found\<close>, and the state is the one it
  started from: no call to the gateway, no session, no stored order.
\<close>

theorem create_empty_wishes:
  assumes "userModel_findById env (user_id usr) = Some []"
  shows "create env now usr w = (Inl (NotFoundException ''No wishes found''), w)"
  using assms by (simp add: create_def)

theorem create_empty_wishes_witness:
  "userModel_findById shop (user_id bob) = Some [] \<and>
   create shop 7 bob start = (Inl (NotFoundException ''No wishes found''), start)"
proof -
  have h: "userModel_findById shop (user_id bob) = Some []"
    by (simp add: shop_def shop_users_def bob_def)
  show ?thesis using h create_empty_wishes [OF h, of 7 start] by simp
qed

text \<open>
  C2. The unit amount of a line item is the sum of two JavaScript numbers, which is not
  always the sum of the integers: for the wish with the prices \<open>2 ^ 53\<close> and \<open>1\<close>, the
  line item \<open>create\<close> hands the gateway has the unit amount \<open>2 ^ 53\<close>.
\<close>

theorem create_line_items_counterexample:
  "userModel_findById shop (user_id erin) = Some [mural] \<and>
   stripe_calls (snd (create shop 7 erin start)) = [session_params [mural]] \<and>
   unit_amount (price_data (line_items (session_params [mural]) ! 0)) = Finite 9007199254740992 \<and>
   sizePrice mural + photoPrice mural = 9007199254740993 \<and>
   unit_amount (price_data (line_items (session_params [mural]) ! 0)) \<noteq>
     Finite (sizePrice mural + photoPrice mural)"
proof -
  have calls: "stripe_calls (snd (create shop 7 erin start)) = [session_params [mural]]"
    by (simp add: scenario_defs create_defs mural_amount)
  have amount: "unit_amount (price_data (line_items (session_params [mural]) ! 0)) =
                  Finite 9007199254740992"
    by (simp add: session_params_def items_def item_of_wish_def mural_def mural_amount)
  have sum: "sizePrice mural + photoPrice mural = 9007199254740993"
    by (simp add: mural_def)
  show ?thesis using erin_wishes calls amount sum by simp
qed

text \<open>
  C2, as it holds. For a non-empty wish list \<open>ws\<close> whose prices and price sums are
  integers of magnitude at most \<open>2 ^ 53\<close>, \<open>create\<close> hands the gateway the list
  \<open>items ws\<close>; it is as long as \<open>ws\<close>, and its \<open>i\<close>-th item has the unit amount
  \<open>sizePrice + photoPrice\<close>, the quantity \<open>amount\<close>, the product name \<open>material\<close> and the
  description \<open>Print on\<close> followed by the material, all of the \<open>i\<close>-th wish.
\<close>

theorem create_line_items:
  assumes "userModel_findById env (user_id usr) = Some ws" and "ws \<noteq> []"
    and "\<forall>wish \<in> set ws. \<bar>sizePrice wish\<bar> \<le> 2 ^ 53 \<and> \<bar>photoPrice wish\<bar> \<le> 2 ^ 53 \<and>
           \<bar>sizePrice wish + photoPrice wish\<bar> \<le> 2 ^ 53"
  shows "stripe_calls (snd (create env now usr w)) = stripe_calls w @ [session_params ws] \<and>
         line_items (session_params ws) = items ws \<and>
         length (items ws) = length ws \<and>
         (\<forall>i<length ws.
            unit_amount (price_data (items ws ! i)) =
              Finite (sizePrice (ws ! i) + photoPrice (ws ! i)) \<and>
            quantity (items ws ! i) = amount (ws ! i) \<and>
            name (product_data (price_data (items ws ! i))) = material (ws ! i) \<and>
            description (product_data (price_data (items ws ! i))) =
              ''Print on '' @ material (ws ! i))"
proof -
  have each: "\<forall>i<length ws.
            unit_amount (price_data (items ws ! i)) =
              Finite (sizePrice (ws ! i) + photoPrice (ws ! i)) \<and>
            quantity (items ws ! i) = amount (ws ! i) \<and>
            name (product_data (price_data (items ws ! i))) = material (ws ! i) \<and>
            description (product_data (price_data (items ws ! i))) =
              ''Print on '' @ material (ws ! i)"
  proof (intro allI impI)
    fix i assume i: "i < length ws"
    then have "ws ! i \<in> set ws" by simp
    with assms(3) have "\<bar>sizePrice (ws ! i) + photoPrice (ws ! i)\<bar> \<le> 2 ^ 53" by blast
    from js_add_exact [OF this] i
    show "unit_amount (price_data (items ws ! i)) =
              Finite (sizePrice (ws ! i) + photoPrice (ws ! i)) \<and>
            quantity (items ws ! i) = amount (ws ! i) \<and>
            name (product_data (price_data (items ws ! i))) = material (ws ! i) \<and>
            description (product_data (price_data (items ws ! i))) =
              ''Print on '' @ material (ws ! i)"
      by (simp add: items_def item_of_wish_def)
  qed
  show ?thesis
    using create_calls_gateway [OF assms(1,2)] each by (simp add: session_params_def items_def)
qed

theorem create_line_items_witness:
  "userModel_findById shop (user_id dave) = Some [canvas, poster] \<and>
   stripe_calls (snd (create shop 8 dave placed)) = stripe_calls placed @ [session_params [canvas, poster]] \<and>
   length (items [canvas, poster]) = 2 \<and>
   unit_amount (price_data (items [canvas, poster] ! 0)) = Finite 1500 \<and>
   quantity (items [canvas, poster] ! 0) = 2 \<and>
   name (product_data (price_data (items [canvas, poster] ! 0))) = ''Canvas'' \<and>
   description (product_data (price_data (items [canvas, poster] ! 0))) = ''Print on Canvas'' \<and>
   unit_amount (price_data (items [canvas, poster] ! 1)) = Finite 500 \<and>
   quantity (items [canvas, poster] ! 1) = 1 \<and>
   name (product_data (price_data (items [canvas, poster] ! 1))) = ''Paper'' \<and>
   description (product_data (price_data (items [canvas, poster] ! 1))) = ''Print on Paper''"
proof -
  have ne: "[canvas, poster] \<noteq> []" by simp
  have safe: "\<forall>wish \<in> set [canvas, poster].
      \<bar>sizePrice wish\<bar> \<le> 2 ^ 53 \<and> \<bar>photoPrice wish\<bar> \<le> 2 ^ 53 \<and>
      \<bar>sizePrice wish + photoPrice wish\<bar> \<le> 2 ^ 53"
    by (simp add: canvas_def poster_def)
  note line = create_line_items [OF dave_wishes ne safe, of 8 placed]
  from line have calls: "stripe_calls (snd (create shop 8 dave placed)) =
      stripe_calls placed @ [session_params [canvas, poster]]"
    and len: "length (items [canvas, poster]) = length [canvas, poster]"
    and each: "\<forall>i<length [canvas, poster].
            unit_amount (price_data (items [canvas, poster] ! i)) =
              Finite (sizePrice ([canvas, poster] ! i) + photoPrice ([canvas, poster] ! i)) \<and>
            quantity (items [canvas, poster] ! i) = amount ([canvas, poster] ! i) \<and>
            name (product_data (price_data (items [canvas, poster] ! i))) =
              material ([canvas, poster] ! i) \<and>
            description (product_data (price_data (items [canvas, poster] ! i))) =
              ''Print on '' @ material ([canvas, poster] ! i)"
    by blast+
  from each have first: "unit_amount (price_data (items [canvas, poster] ! 0)) = Finite 1500 \<and>
      quantity (items [canvas, poster] ! 0) = 2 \<and>
      name (product_data (price_data (items [canvas, poster] ! 0))) = ''Canvas'' \<and>
      description (product_data (price_data (items [canvas, poster] ! 0))) = ''Print on Canvas''"
    by (simp add: canvas_def)
  have "(1::nat) < length [canvas, poster]" by simp
  with each have "unit_amount (price_data (items [canvas, poster] ! 1)) =
              Finite (sizePrice ([canvas, poster] ! 1) + photoPrice ([canvas, poster] ! 1)) \<and>
            quantity (items [canvas, poster] ! 1) = amount ([canvas, poster] ! 1) \<and>
            name (product_data (price_data (items [canvas, poster] ! 1))) =
              material ([canvas, poster] ! 1) \<and>
            description (product_data (price_data (items [canvas, poster] ! 1))) =
              ''Print on '' @ material ([canvas, poster] ! 1)"
    by blast
  then have second: "unit_amount (price_data (items [canvas, poster] ! 1)) = Finite 500 \<and>
      quantity (items [canvas, poster] ! 1) = 1 \<and>
      name (product_data (price_data (items [canvas, poster] ! 1))) = ''Paper'' \<and>
      description (product_data (price_data (items [canvas, poster] ! 1))) = ''Print on Paper''"
    by (simp add: poster_def)
  show ?thesis using dave_wishes calls len first second by simp
qed

text \<open>
  C3. With \<open>ws\<close> the fetched wish list: when \<open>create\<close> returns an order, that order is
  the one document appended to the store, and its \<open>wishes\<close> are the ids of \<open>ws\<close>, one
  for each wish and in the order of the list. And \<open>create\<close> does return such an order
  whenever \<open>ws\<close> is not empty, the gateway answers with a session, and the store
  accepts the insert under an id that is not in use.
\<close>

theorem create_order_wishes:
  assumes "userModel_findById env (user_id usr) = Some ws"
  shows "(\<forall>ord w'. create env now usr w = (Inr ord, w') \<longrightarrow>
            wishes ord = map wish_id ws \<and> length (wishes ord) = length ws \<and>
            (\<forall>i<length ws. wishes ord ! i = wish_id (ws ! i)) \<and>
            orders w' = orders w @ [ord]) \<and>
         (ws \<noteq> [] \<and>
          (\<exists>session. stripe_create env (stripe_calls w) (session_params ws) = Inr session \<and>
             orderModel_fault env (orders w)
               \<lparr>createdAt = now, paid = amount_total session, status = ''Pending'',
                paymentLink = url session, user = user_id usr, wishes = map wish_id ws\<rparr> = None) \<and>
          new_ObjectId env (orders w) \<notin> set (map order_id (orders w)) \<longrightarrow>
            (\<exists>ord w'. create env now usr w = (Inr ord, w') \<and>
               wishes ord = map wish_id ws \<and> orders w' = orders w @ [ord]))"
proof (intro conjI allI impI)
  fix ord w'
  assume "create env now usr w = (Inr ord, w')"
  from create_Inr [OF this] assms
  have w: "wishes ord = map wish_id ws" and o: "orders w' = orders w @ [ord]"
    by auto
  from w show "wishes ord = map wish_id ws" .
  from w show "length (wishes ord) = length ws" by simp
  from o show "orders w' = orders w @ [ord]" .
  fix i assume "i < length ws"
  with w show "wishes ord ! i = wish_id (ws ! i)" by simp
next
  assume h: "ws \<noteq> [] \<and>
          (\<exists>session. stripe_create env (stripe_calls w) (session_params ws) = Inr session \<and>
             orderModel_fault env (orders w)
               \<lparr>createdAt = now, paid = amount_total session, status = ''Pending'',
                paymentLink = url session, user = user_id usr, wishes = map wish_id ws\<rparr> = None) \<and>
          new_ObjectId env (orders w) \<notin> set (map order_id (orders w))"
  then obtain session where
    s: "stripe_create env (stripe_calls w) (session_params ws) = Inr session"
      "orderModel_fault env (orders w)
               \<lparr>createdAt = now, paid = amount_total session, status = ''Pending'',
                paymentLink = url session, user = user_id usr, wishes = map wish_id ws\<rparr> = None"
    by blast
  from h have ne: "ws \<noteq> []" and fresh: "new_ObjectId env (orders w) \<notin> set (map order_id (orders w))"
    by blast+
  from create_succeeds [OF assms ne s fresh]
  show "\<exists>ord w'. create env now usr w = (Inr ord, w') \<and>
               wishes ord = map wish_id ws \<and> orders w' = orders w @ [ord]"
    by simp
qed

theorem create_order_wishes_witness:
  "userModel_findById shop (user_id dave) = Some [canvas, poster] \<and>
   stripe_create shop (stripe_calls placed) (session_params [canvas, poster]) = Inr session2 \<and>
   new_ObjectId shop (orders placed) = ''650000000000000000000002'' \<and>
   map order_id (orders placed) = [''650000000000000000000001''] \<and>
   create shop 8 dave placed = (Inr order2, placed_twice) \<and>
   wishes order2 = [wish_id canvas, wish_id poster] \<and>
   wishes order2 ! 0 = ''w1'' \<and> wishes order2 ! 1 = ''w2'' \<and> length (wishes order2) = 2 \<and>
   orders placed_twice = orders placed @ [order2]"
proof -
  note both = create_order_wishes [OF dave_wishes, of 8 placed]
  have gateway: "stripe_create shop (stripe_calls placed) (session_params [canvas, poster]) =
      Inr session2"
    by (simp add: scenario_defs create_defs canvas_amount poster_amount)
  have accepted: "orderModel_fault shop (orders placed)
      \<lparr>createdAt = 8, paid = amount_total session2, status = ''Pending'',
       paymentLink = url session2, user = user_id dave,
       wishes = map wish_id [canvas, poster]\<rparr> = None"
    by (simp add: shop_def)
  have ids: "new_ObjectId shop (orders placed) = ''650000000000000000000002'' \<and>
             map order_id (orders placed) = [''650000000000000000000001'']"
    by (simp add: scenario_defs)
  then have fresh: "new_ObjectId shop (orders placed) \<notin> set (map order_id (orders placed))"
    by simp
  from both gateway accepted fresh obtain ord w' where
    run: "create shop 8 dave placed = (Inr ord, w')"
    by blast
  with dave_first have same: "ord = order2" "w' = placed_twice" by simp_all
  from both run same have
    "wishes order2 = map wish_id [canvas, poster] \<and>
     length (wishes order2) = length [canvas, poster] \<and>
     (\<forall>i<length [canvas, poster]. wishes order2 ! i = wish_id ([canvas, poster] ! i)) \<and>
     orders placed_twice = orders placed @ [order2]"
    by blast
  then show ?thesis using dave_wishes gateway ids dave_first
    by (simp add: canvas_def poster_def)
qed

text \<open>
  C4. When \<open>create\<close> returns an order, the gateway answered the call with a session,
  and the order appended to the store has \<open>paid\<close> equal to the session's amount total,
  \<open>paymentLink\<close> equal to the session's url, the status \<open>Pending\<close> and the caller's id as
  \<open>user\<close>.
\<close>

theorem create_order_fields:
  assumes "create env now usr w = (Inr ord, w')"
  shows "\<exists>ws session.
           userModel_findById env (user_id usr) = Some ws \<and>
           stripe_create env (stripe_calls w) (session_params ws) = Inr session \<and>
           paid ord = amount_total session \<and> paymentLink ord = url session \<and>
           status ord = ''Pending'' \<and> user ord = user_id usr \<and>
           orders w' = orders w @ [ord]"
proof -
  from create_Inr [OF assms] obtain ws session where
    "userModel_findById env (user_id usr) = Some ws"
    "stripe_create env (stripe_calls w) (session_params ws) = Inr session"
    "paid ord = amount_total session" "paymentLink ord = url session"
    "status ord = ''Pending''" "user ord = user_id usr" "orders w' = orders w @ [ord]"
    by auto
  then show ?thesis by blast
qed

theorem create_order_fields_witness:
  "create shop 7 alice start = (Inr order1, placed) \<and>
   stripe_create shop (stripe_calls start) (session_params [canvas]) = Inr session1 \<and>
   paid order1 = amount_total session1 \<and> paymentLink order1 = url session1 \<and>
   status order1 = ''Pending'' \<and> user order1 = user_id alice \<and>
   orders placed = orders start @ [order1]"
proof -
  from create_order_fields [OF alice_first] obtain ws session where
    f: "userModel_findById shop (user_id alice) = Some ws"
      "stripe_create shop (stripe_calls start) (session_params ws) = Inr session"
      "paid order1 = amount_total session" "paymentLink order1 = url session"
      "status order1 = ''Pending''" "user order1 = user_id alice"
      "orders placed = orders start @ [order1]"
    by blast
  from f(1) alice_wishes have ws: "ws = [canvas]" by simp
  have "stripe_create shop (stripe_calls start) (session_params [canvas]) = Inr session1"
    by (simp add: scenario_defs create_defs canvas_amount)
  with f(2) ws have "session = session1" by simp
  with f ws alice_first show ?thesis by simp
qed

text \<open>
  C5. The translation does not reach every error of the gateway and persistence phase.
  In the scenario whose store rejects the insert with the duplicate-key error (code
  11000), the gateway has created its session, and \<open>create\<close> fails with that raw error
  itself: no \<open>BadRequestException\<close>, and nothing logged.
\<close>

theorem create_store_rejection_escapes:
  "create shop_rejecting 7 alice start =
     (Inl (Rejected duplicate_key),
      \<lparr>orders = [], stripe_calls = [session_params [canvas]], stripe_sessions = [created1],
       logged = []\<rparr>) \<and>
   code duplicate_key = NumCode 11000 \<and>
   fst (handelDBException shop_rejecting duplicate_key start) =
     BadRequestException ''Order already exists, paymentLink:https://pay/session/a;''"
  by (simp add: scenario_defs create_defs canvas_amount)



section \<open>Properties of update and remove\<close>







section \<open>Further properties of create\<close>

text \<open>
  C9. When the lookup of the user returns \<^verbatim>\<open>null\<close>, \<open>create\<close> fails with the \<open>TypeError\<close> of
  the destructuring at line 26: not a \<open>NotFoundException\<close>, and with the state as it was,
  so nothing was translated or logged by \<open>handelDBException\<close>.
\<close>

theorem create_user_absent:
  assumes "userModel_findById env (user_id usr) = None"
  shows "create env now usr w = (Inl TypeError, w) \<and>
         fst (create env now usr w) \<noteq> Inl (NotFoundException ''No wishes found'') \<and>
         logged (snd (create env now usr w)) = logged w"
  using assms by (simp add: create_def)

theorem create_user_absent_witness:
  "userModel_findById shop (user_id carol) = None \<and>
   create shop 7 carol start = (Inl TypeError, start)"
proof -
  have h: "userModel_findById shop (user_id carol) = None"
    by (simp add: shop_def shop_users_def carol_def)
  show ?thesis using h create_user_absent [OF h, of 7 start] by simp
qed

text \<open>
  C10. Every line item of the call \<open>create\<close> makes to the gateway has the currency
  \<open>usd\<close>, whatever the wishes and the user are.
\<close>

theorem create_currency_usd:
  assumes "userModel_findById env (user_id usr) = Some ws" and "ws \<noteq> []"
  shows "stripe_calls (snd (create env now usr w)) = stripe_calls w @ [session_params ws] \<and>
         (\<forall>it \<in> set (line_items (session_params ws)). currency (price_data it) = ''usd'')"
proof -
  have "\<forall>it \<in> set (line_items (session_params ws)). currency (price_data it) = ''usd''"
    by (auto simp: session_params_def items_def item_of_wish_def)
  with create_calls_gateway [OF assms] show ?thesis by simp
qed

theorem create_currency_usd_witness:
  "userModel_findById shop (user_id alice) = Some [canvas] \<and> [canvas] \<noteq> [] \<and>
   stripe_calls (snd (create shop 7 alice start)) = [session_params [canvas]] \<and>
   map (\<lambda>it. currency (price_data it)) (line_items (session_params [canvas])) = [''usd'']"
proof -
  have ne: "[canvas] \<noteq> []" by simp
  from create_currency_usd [OF alice_wishes ne, of 7 start]
  have calls: "stripe_calls (snd (create shop 7 alice start)) = [session_params [canvas]]"
    and usd: "\<forall>it \<in> set (line_items (session_params [canvas])). currency (price_data it) = ''usd''"
    by (simp_all add: start_def)
  have "length (line_items (session_params [canvas])) = 1"
    by (simp add: session_params_def items_def)
  then obtain it where it: "line_items (session_params [canvas]) = [it]"
    by (cases "line_items (session_params [canvas])") auto
  with usd have "currency (price_data it) = ''usd''" by simp
  with it calls alice_wishes show ?thesis by simp
qed

end
